theory Spec2Isabelle
  imports Main
begin

section \<open>Strings and the regular expression of the naming rule\<close>

text \<open>
  A Python \<open>str\<close> is a sequence of Unicode code points. File names returned by
  \<open>os.listdir\<close> are such strings, and two entries of the exemption list contain
  characters outside ASCII, so a name is modelled as a list of code points.
  \<open>str\<close> embeds an ASCII literal.
\<close>

type_synonym pystr = "nat list"

definition str :: "string \<Rightarrow> pystr" where
  "str s = map of_char s"

text \<open>
  The fragment of Python's \<open>re\<close> syntax that the pattern of the script uses:
  the anchors \<open>^\<close> and \<open>$\<close>, literal text, a character class given by its
  ranges, alternation, concatenation and the repetition \<open>+\<close>.
\<close>

datatype regex =
    Bol
  | Eol
  | Lit string
  | Class "(char \<times> char) list"
  | Alt regex regex
  | Seq regex regex
  | Plus regex

definition in_class :: "(char \<times> char) list \<Rightarrow> nat \<Rightarrow> bool" where
  "in_class rs c = list_ex (\<lambda>(lo, hi). of_char lo \<le> c \<and> c \<le> of_char hi) rs"

text \<open>
  \<open>ends r n rest\<close> lists what is left of the subject after each way of matching
  \<open>r\<close> at the front of \<open>rest\<close>, in the order a backtracking matcher tries them;
  \<open>n\<close> is the length of the whole subject, so that \<open>rest\<close> is at the start of
  the subject exactly when its length is \<open>n\<close>.

  Without the MULTILINE flag, \<open>^\<close> matches at the start of the string only, and
  \<open>$\<close> matches at the end of the string and also just before a newline that is
  the last character of the string. An iteration of \<open>+\<close> that consumes nothing
  is not repeated.
\<close>

function ends :: "regex \<Rightarrow> nat \<Rightarrow> pystr \<Rightarrow> pystr list" where
  "ends Bol n rest = (if length rest = n then [rest] else [])"
| "ends Eol n rest = (if rest = [] \<or> rest = [10] then [rest] else [])"
| "ends (Lit cs) n rest =
     (if take (length cs) rest = str cs then [drop (length cs) rest] else [])"
| "ends (Class rs) n rest =
     (case rest of [] \<Rightarrow> [] | c # t \<Rightarrow> if in_class rs c then [t] else [])"
| "ends (Alt a b) n rest = ends a n rest @ ends b n rest"
| "ends (Seq a b) n rest = concat (map (ends b n) (ends a n rest))"
| "ends (Plus r) n rest =
     concat (map (\<lambda>t. ends (Plus r) n t @ [t])
       (filter (\<lambda>t. length t < length rest) (ends r n rest)))"
  by pat_completeness auto
termination
  by (relation "measures [\<lambda>(r, n, rest). size r, \<lambda>(r, n, rest). length rest]") auto

declare ends.simps(7) [simp del]

text \<open>\<open>re.match(pattern, name)\<close> succeeds when the pattern matches at position 0.\<close>

definition re_match :: "regex \<Rightarrow> pystr \<Rightarrow> bool" where
  "re_match r name = (ends r (length name) name \<noteq> [])"

section \<open>The script\<close>

text \<open>
  Line 15: \<^verbatim>\<open>pattern = r'^(META|ARCH|SPEC|IMPL|QA)-[A-Za-z]+-[A-Za-z]+\.md$'\<close>
\<close>

definition letters :: regex where
  "letters = Plus (Class [(CHR ''A'', CHR ''Z''), (CHR ''a'', CHR ''z'')])"

definition pattern :: regex where
  "pattern =
     Seq Bol
    (Seq (Alt (Lit ''META'') (Alt (Lit ''ARCH'') (Alt (Lit ''SPEC'') (Alt (Lit ''IMPL'') (Lit ''QA'')))))
    (Seq (Lit ''-'')
    (Seq letters
    (Seq (Lit ''-'')
    (Seq letters
    (Seq (Lit ''.md'')
     Eol))))))"

text \<open>Lines 31-33: \<^verbatim>\<open>return bool(re.match(pattern, name))\<close>\<close>

definition validate_filename :: "pystr \<Rightarrow> bool" where
  "validate_filename name = re_match pattern name"

text \<open>
  Lines 18-29: the exemption list \<^verbatim>\<open>redirect_files\<close>. Its last two entries start
  with four and with seven CJK characters, given here by their code points.
\<close>

definition redirect_files :: "pystr list" where
  "redirect_files =
    [str ''00-document-meta.md'',
     str ''01-core-principles.md'',
     str ''02-system-architecture.md'',
     str ''02b-state-machine-specification.md'',
     str ''03-contracts.md'',
     str ''04-testing-architecture.md'',
     str ''05-implementation-plan.md'',
     str ''06-json-example.md'',
     [25991, 26723, 23548, 33322] @ str ''.md'',
     [27169, 22359, 21270, 35828, 26126, 26041, 26696] @ str ''.md'']"

text \<open>
  What the script reads of the file system. \<open>docs_dir\<close> (line 12) is a path computed
  from the script's own location; it is a parameter of \<open>main\<close>. At that path there is
  nothing (\<open>os.path.exists\<close> is false), or something that is not a directory
  (\<open>os.path.exists\<close> is true and \<open>os.listdir\<close> raises \<open>NotADirectoryError\<close>), or a
  directory that the process may not read (\<open>os.path.exists\<close> is true and
  \<open>os.listdir\<close> raises \<open>PermissionError\<close>), or a directory with its listing in the
  order \<open>os.listdir\<close> returns it. An entry of the listing is a name with the answer
  of \<open>os.path.isdir\<close> for it. Any other error of \<open>os.listdir\<close> takes the same path
  through the script as these two: the script catches no exception.
\<close>

type_synonym entry = "pystr \<times> bool"

datatype node = Absent | Regular | Unreadable | Directory "entry list"

text \<open>
  The lines the script prints, by their content (the wording is Chinese text in the
  source): the three header lines of lines 37-39, the error of line 48, the notices of
  lines 60, 66 and 69, the summary of lines 72-75 and the closing report of lines
  77-85.
\<close>

datatype line =
    Start
  | DocsDirLine pystr
  | PatternLine
  | MissingDir pystr
  | Skipped pystr
  | ValidLine pystr
  | InvalidLine pystr
  | SummaryHead
  | TotalLine nat
  | ValidCount nat
  | InvalidCount nat
  | InvalidHead
  | Item pystr
  | Failure
  | Success

text \<open>The local variables of \<open>main\<close> (lines 42-44) and the text printed so far.\<close>

record scan =
  total_files :: nat
  valid_files :: nat
  invalid_files :: "pystr list"
  out :: "line list"

datatype fault = NotADirectoryError | PermissionError

datatype outcome = Exit int | Uncaught fault

text \<open>Lines 52-69: the body of the loop, for one entry of the listing.\<close>

definition body :: "entry \<Rightarrow> scan \<Rightarrow> scan" where
  "body e s =
    (case e of (filename, isdir) \<Rightarrow>
      if isdir then s
      else
        let s = s\<lparr>total_files := total_files s + 1\<rparr> in
        if List.member redirect_files filename then
          s\<lparr>out := out s @ [Skipped filename]\<rparr>
        else if validate_filename filename then
          s\<lparr>valid_files := valid_files s + 1, out := out s @ [ValidLine filename]\<rparr>
        else
          s\<lparr>invalid_files := invalid_files s @ [filename],
            out := out s @ [InvalidLine filename]\<rparr>)"

text \<open>Line 51: \<^verbatim>\<open>for filename in os.listdir(docs_dir)\<close>.\<close>

fun for_loop :: "entry list \<Rightarrow> scan \<Rightarrow> scan" where
  "for_loop [] s = s"
| "for_loop (e # es) s = for_loop es (body e s)"

text \<open>Lines 71-85: the summary, the list of invalid names and the exit code.\<close>

definition report :: "scan \<Rightarrow> scan \<times> outcome" where
  "report s =
    (let s = s\<lparr>out := out s @
               [SummaryHead, TotalLine (total_files s), ValidCount (valid_files s),
                InvalidCount (length (invalid_files s))]\<rparr>
     in if invalid_files s \<noteq> [] then
          (s\<lparr>out := out s @ [InvalidHead] @ map Item (invalid_files s) @ [Failure]\<rparr>, Exit 1)
        else
          (s\<lparr>out := out s @ [Success]\<rparr>, Exit 0))"

text \<open>
  Lines 35-85: \<open>main\<close>. It returns the final values of its variables with everything
  printed, and how the run ends: \<open>sys.exit\<close> with a code, or an exception that nothing
  catches. The runs described are those in which every \<open>print\<close> succeeds, that is,
  standard output is writable and its encoding has the characters of the text; a run in
  which a \<open>print\<close> raises is not described.
\<close>

definition main :: "pystr \<Rightarrow> node \<Rightarrow> scan \<times> outcome" where
  "main docs_dir fs =
    (let s = \<lparr>total_files = 0, valid_files = 0, invalid_files = [],
               out = [Start, DocsDirLine docs_dir, PatternLine]\<rparr>
     in case fs of
          Absent \<Rightarrow> (s\<lparr>out := out s @ [MissingDir docs_dir]\<rparr>, Exit 1)
        | Regular \<Rightarrow> (s, Uncaught NotADirectoryError)
        | Unreadable \<Rightarrow> (s, Uncaught PermissionError)
        | Directory es \<Rightarrow> report (for_loop es s))"

section \<open>Notions of the specification\<close>

text \<open>
  The Naming Pattern in the words of the specification: one of the five tags, a hyphen,
  one or more ASCII letters, a hyphen, one or more ASCII letters and the suffix
  \<open>.md\<close>, with nothing before and nothing after. \<open>validate_filename\<close> above is the
  code; \<open>naming_pattern\<close> is what it is compared with.
\<close>

definition tags :: "string list" where
  "tags = [''META'', ''ARCH'', ''SPEC'', ''IMPL'', ''QA'']"

definition ascii_letter :: "nat \<Rightarrow> bool" where
  "ascii_letter c = ((65 \<le> c \<and> c \<le> 90) \<or> (97 \<le> c \<and> c \<le> 122))"

definition naming_pattern :: "pystr \<Rightarrow> bool" where
  "naming_pattern name =
    (\<exists>t a b. t \<in> set tags \<and> a \<noteq> [] \<and> list_all ascii_letter a \<and>
       b \<noteq> [] \<and> list_all ascii_letter b \<and>
       name = str t @ str ''-'' @ a @ str ''-'' @ b @ str ''.md'')"

text \<open>
  The script keeps no count of the exempt files. \<open>exempt_count\<close> is the number of
  entries of the listing that are not directories and whose names are in the exemption
  list.
\<close>

definition exempt_count :: "entry list \<Rightarrow> nat" where
  "exempt_count es =
     length (filter (\<lambda>(filename, isdir). \<not> isdir \<and> List.member redirect_files filename) es)"

text \<open>
  The names of the listing, in its order, that are not directories, are not exempt and
  fail the pattern.
\<close>

definition failures :: "entry list \<Rightarrow> pystr list" where
  "failures es =
     map fst (filter (\<lambda>(filename, isdir).
       \<not> isdir \<and> \<not> List.member redirect_files filename \<and> \<not> validate_filename filename) es)"


section \<open>The pattern\<close>

lemma length_str: "length (str cs) = length cs"
  by (simp add: str_def)

lemma mem_ends_Lit: "t \<in> set (ends (Lit cs) n rest) \<longleftrightarrow> rest = str cs @ t"
proof -
  have "str cs @ t = rest \<longleftrightarrow> str cs = take (length cs) rest \<and> t = drop (length cs) rest"
    using append_eq_conv_conj [of "str cs" t rest] by (simp add: length_str)
  then show ?thesis by auto
qed

lemma mem_ends_Alt: "t \<in> set (ends (Alt a b) n rest) \<longleftrightarrow>
    t \<in> set (ends a n rest) \<or> t \<in> set (ends b n rest)"
  by simp

lemma mem_ends_Seq: "t \<in> set (ends (Seq a b) n rest) \<longleftrightarrow>
    (\<exists>u. u \<in> set (ends a n rest) \<and> t \<in> set (ends b n u))"
  by auto

lemma mem_ends_Eol: "t \<in> set (ends Eol n rest) \<longleftrightarrow> t = rest \<and> (rest = [] \<or> rest = [10])"
  by auto

lemma mem_ends_Bol: "t \<in> set (ends Bol n rest) \<longleftrightarrow> t = rest \<and> length rest = n"
  by auto


lemma ends_Plus_Class_Nil: "ends (Plus (Class rs)) n [] = []"
  by (simp add: ends.simps(7) [of "Class rs" n "[]"])

lemma ends_Plus_Class_Cons: "ends (Plus (Class rs)) n (c # t) =
    (if in_class rs c then ends (Plus (Class rs)) n t @ [t] else [])"
  by (simp add: ends.simps(7) [of "Class rs" n "c # t"])

lemma in_class_letters:
  "in_class [(CHR ''A'', CHR ''Z''), (CHR ''a'', CHR ''z'')] c = ascii_letter c"
  by (simp add: in_class_def ascii_letter_def)

lemma ends_letters_Nil: "ends letters n [] = []"
  by (simp add: letters_def ends_Plus_Class_Nil)

lemma ends_letters_Cons:
  "ends letters n (c # t) = (if ascii_letter c then ends letters n t @ [t] else [])"
  by (simp only: letters_def ends_Plus_Class_Cons in_class_letters)


lemma mem_ends_letters: "t \<in> set (ends letters n rest) \<longleftrightarrow>
    (\<exists>a. a \<noteq> [] \<and> list_all ascii_letter a \<and> rest = a @ t)"
proof (induction rest)
  case Nil
  then show ?case by (simp add: ends_letters_Nil)
next
  case (Cons c rest)
  show ?case
  proof (cases "ascii_letter c")
    case False
    then have "\<not> (\<exists>a. a \<noteq> [] \<and> list_all ascii_letter a \<and> c # rest = a @ t)"
      by (auto simp: Cons_eq_append_conv)
    with False show ?thesis
      by (simp add: ends_letters_Cons)
  next
    case True
    have "(\<exists>a. a \<noteq> [] \<and> list_all ascii_letter a \<and> c # rest = a @ t) \<longleftrightarrow>
          t = rest \<or> (\<exists>a. a \<noteq> [] \<and> list_all ascii_letter a \<and> rest = a @ t)"
      (is "?L \<longleftrightarrow> ?R")
    proof
      assume ?L
      then obtain a where a: "a \<noteq> []" "list_all ascii_letter a" "c # rest = a @ t" by blast
      then obtain a' where a': "a = c # a'" "rest = a' @ t"
        by (auto simp: Cons_eq_append_conv)
      show ?R
      proof (cases "a' = []")
        case True with a' show ?thesis by simp
      next
        case False
        with a a' have "a' \<noteq> [] \<and> list_all ascii_letter a' \<and> rest = a' @ t" by simp
        then show ?thesis by blast
      qed
    next
      assume ?R
      then show ?L
      proof
        assume "t = rest"
        with True have "[c] \<noteq> [] \<and> list_all ascii_letter [c] \<and> c # rest = [c] @ t" by simp
        then show ?L by blast
      next
        assume "\<exists>a. a \<noteq> [] \<and> list_all ascii_letter a \<and> rest = a @ t"
        then obtain a where "a \<noteq> []" "list_all ascii_letter a" "rest = a @ t" by blast
        with True have "c # a \<noteq> [] \<and> list_all ascii_letter (c # a) \<and> c # rest = (c # a) @ t"
          by simp
        then show ?L by blast
      qed
    qed
    with True Cons.IH show ?thesis
      by (simp add: ends_letters_Cons)
  qed
qed

lemma mem_ends_tag:
  "t \<in> set (ends (Alt (Lit ''META'') (Alt (Lit ''ARCH'') (Alt (Lit ''SPEC'')
      (Alt (Lit ''IMPL'') (Lit ''QA''))))) n rest) \<longleftrightarrow> (\<exists>g. g \<in> set tags \<and> rest = str g @ t)"
proof -
  have "(\<exists>g. g \<in> set tags \<and> rest = str g @ t) \<longleftrightarrow>
      rest = str ''META'' @ t \<or> rest = str ''ARCH'' @ t \<or> rest = str ''SPEC'' @ t \<or>
      rest = str ''IMPL'' @ t \<or> rest = str ''QA'' @ t"
    unfolding tags_def by (simp only: set_simps insert_iff empty_iff) blast
  then show ?thesis
    by (simp only: mem_ends_Alt mem_ends_Lit)
qed


lemma mem_ends_pattern:
  "t \<in> set (ends pattern n rest) \<longleftrightarrow>
     length rest = n \<and> (t = [] \<or> t = [10]) \<and>
     (\<exists>g a b. g \<in> set tags \<and> a \<noteq> [] \<and> list_all ascii_letter a \<and>
        b \<noteq> [] \<and> list_all ascii_letter b \<and>
        rest = str g @ str ''-'' @ a @ str ''-'' @ b @ str ''.md'' @ t)"
  unfolding pattern_def mem_ends_Seq mem_ends_tag mem_ends_Lit mem_ends_letters mem_ends_Eol
    mem_ends_Bol
  by (intro iffI; clarsimp) blast+


lemma validate_filename_ends:
  "validate_filename name \<longleftrightarrow> (\<exists>t. t \<in> set (ends pattern (length name) name))"
  unfolding validate_filename_def re_match_def
  by (cases "ends pattern (length name) name") auto

lemma validate_filename_iff:
  "validate_filename name \<longleftrightarrow>
     naming_pattern name \<or> (\<exists>m. naming_pattern m \<and> name = m @ [10])"
proof
  assume "validate_filename name"
  then obtain t g a b where t: "t = [] \<or> t = [10]"
    and g: "g \<in> set tags" "a \<noteq> []" "list_all ascii_letter a" "b \<noteq> []" "list_all ascii_letter b"
    and name: "name = str g @ str ''-'' @ a @ str ''-'' @ b @ str ''.md'' @ t"
    unfolding validate_filename_ends mem_ends_pattern by blast
  let ?m = "str g @ str ''-'' @ a @ str ''-'' @ b @ str ''.md''"
  have m: "naming_pattern ?m"
    unfolding naming_pattern_def using g by blast
  from t show "naming_pattern name \<or> (\<exists>m. naming_pattern m \<and> name = m @ [10])"
  proof
    assume "t = []"
    with name m show ?thesis by simp
  next
    assume "t = [10]"
    with name have "name = ?m @ [10]" by simp
    with m show ?thesis by blast
  qed
next
  assume "naming_pattern name \<or> (\<exists>m. naming_pattern m \<and> name = m @ [10])"
  then obtain m t where m: "naming_pattern m" and t: "t = [] \<or> t = [10]" and name: "name = m @ t"
    by auto
  from m obtain g a b where
    g: "g \<in> set tags" "a \<noteq> []" "list_all ascii_letter a" "b \<noteq> []" "list_all ascii_letter b"
    and "m = str g @ str ''-'' @ a @ str ''-'' @ b @ str ''.md''"
    unfolding naming_pattern_def by blast
  with name have "name = str g @ str ''-'' @ a @ str ''-'' @ b @ str ''.md'' @ t" by simp
  with g t have "t \<in> set (ends pattern (length name) name)"
    unfolding mem_ends_pattern by blast
  then show "validate_filename name"
    unfolding validate_filename_ends by blast
qed

lemma naming_pattern_last: "naming_pattern name \<Longrightarrow> last name = 100"
  unfolding naming_pattern_def by (auto simp add: str_def)

lemma naming_pattern_newline: "\<not> naming_pattern (m @ [10])"
  using naming_pattern_last [of "m @ [10]"] by auto

lemma naming_pattern_hd:
  "naming_pattern name \<Longrightarrow> name \<noteq> [] \<and> hd name \<in> {77, 65, 83, 73, 81}"
  unfolding naming_pattern_def tags_def by (auto simp add: str_def)

lemma validate_filename_hd:
  "validate_filename name \<Longrightarrow> name \<noteq> [] \<and> hd name \<in> {77, 65, 83, 73, 81}"
  unfolding validate_filename_iff using naming_pattern_hd by fastforce


lemma naming_pattern_SPEC_a_b: "naming_pattern (str ''SPEC-a-b.md'')"
proof -
  have "''SPEC'' \<in> set tags \<and> [97] \<noteq> [] \<and> list_all ascii_letter [97] \<and>
      [98] \<noteq> [] \<and> list_all ascii_letter [98] \<and>
      str ''SPEC-a-b.md'' = str ''SPEC'' @ str ''-'' @ [97] @ str ''-'' @ [98] @ str ''.md''"
    by (simp add: tags_def ascii_letter_def str_def)
  then show ?thesis unfolding naming_pattern_def by blast
qed

lemma naming_pattern_META_A_B: "naming_pattern (str ''META-A-B.md'')"
proof -
  have "''META'' \<in> set tags \<and> [65] \<noteq> [] \<and> list_all ascii_letter [65] \<and>
      [66] \<noteq> [] \<and> list_all ascii_letter [66] \<and>
      str ''META-A-B.md'' = str ''META'' @ str ''-'' @ [65] @ str ''-'' @ [66] @ str ''.md''"
    by (simp add: tags_def ascii_letter_def str_def)
  then show ?thesis unfolding naming_pattern_def by blast
qed

lemma exempt_hd: "n \<in> set redirect_files \<Longrightarrow> hd n \<in> {48, 25991, 27169}"
  by (auto simp add: redirect_files_def str_def)

lemma exempt_not_valid: "n \<in> set redirect_files \<Longrightarrow> \<not> validate_filename n"
proof
  assume "n \<in> set redirect_files" and "validate_filename n"
  then have "hd n \<in> {48, 25991, 27169}" and "hd n \<in> {77, 65, 83, 73, 81}"
    using exempt_hd validate_filename_hd by blast+
  then show False by auto
qed

text \<open>
  C1: \<open>validate_filename\<close> is meant to hold exactly for the names that match the
  Naming Pattern from the first character to the last. At the name \<open>SPEC-a-b.md\<close>
  followed by a newline the two differ: the code accepts a name that is not a full
  match of the pattern.
\<close>

theorem validate_filename_newline_divergence:
  "validate_filename (str ''SPEC-a-b.md'' @ [10]) \<and>
   \<not> naming_pattern (str ''SPEC-a-b.md'' @ [10])"
proof
  show "validate_filename (str ''SPEC-a-b.md'' @ [10])" by code_simp
  show "\<not> naming_pattern (str ''SPEC-a-b.md'' @ [10])" by (rule naming_pattern_newline)
qed

text \<open>
  C5: a name that departs from the pattern by extra characters after the suffix is
  meant to be rejected. The valid name \<open>META-A-B.md\<close> with one more character after
  it, a newline, is a different name and is accepted.
\<close>

theorem extra_trailing_character_accepted:
  "naming_pattern (str ''META-A-B.md'') \<and>
   validate_filename (str ''META-A-B.md'' @ [10]) \<and>
   str ''META-A-B.md'' @ [10] \<noteq> str ''META-A-B.md''"
proof (intro conjI)
  show "naming_pattern (str ''META-A-B.md'')" by (rule naming_pattern_META_A_B)
  show "validate_filename (str ''META-A-B.md'' @ [10])" by code_simp
  show "str ''META-A-B.md'' @ [10] \<noteq> str ''META-A-B.md''" by simp
qed

text \<open>
  C8: every name that matches the Naming Pattern and is followed by one newline is
  accepted by \<open>validate_filename\<close> although it is not a full match of the pattern,
  because \<open>$\<close> also matches just before a newline that ends the string.
\<close>

theorem trailing_newline_accepted:
  "naming_pattern m \<Longrightarrow> validate_filename (m @ [10]) \<and> \<not> naming_pattern (m @ [10])"
  using validate_filename_iff [of "m @ [10]"] naming_pattern_newline [of m] by blast

theorem trailing_newline_accepted_witness:
  "naming_pattern (str ''SPEC-a-b.md'') \<and> validate_filename (str ''SPEC-a-b.md'' @ [10]) \<and>
   \<not> naming_pattern (str ''SPEC-a-b.md'' @ [10])"
  using trailing_newline_accepted [OF naming_pattern_SPEC_a_b] naming_pattern_SPEC_a_b by blast

text \<open>
  C9: none of the ten names of the exemption list passes \<open>validate_filename\<close>, so no
  name is both exempt and a match of the pattern: the exempt and the valid files of a
  run are disjoint, and no entry of the list hides a name that would have passed.
\<close>

theorem exempt_names_fail_the_pattern:
  "filter validate_filename redirect_files = [] \<and> length redirect_files = 10 \<and>
   \<not> (List.member redirect_files name \<and> validate_filename name)"
proof (intro conjI)
  show "filter validate_filename redirect_files = []"
    using exempt_not_valid by (simp add: filter_empty_conv)
  show "length redirect_files = 10" by (simp add: redirect_files_def)
  show "\<not> (List.member redirect_files name \<and> validate_filename name)"
    using exempt_not_valid [of name] by auto
qed

section \<open>The loop over the listing\<close>

lemma body_dir: "body (filename, True) s = s"
  by (simp add: body_def)

lemma body_exempt:
  "List.member redirect_files filename \<Longrightarrow>
   body (filename, False) s =
     s\<lparr>total_files := total_files s + 1, out := out s @ [Skipped filename]\<rparr>"
  by (simp add: body_def Let_def)

lemma body_valid:
  "\<not> List.member redirect_files filename \<Longrightarrow> validate_filename filename \<Longrightarrow>
   body (filename, False) s =
     s\<lparr>total_files := total_files s + 1, valid_files := valid_files s + 1,
       out := out s @ [ValidLine filename]\<rparr>"
  by (simp add: body_def Let_def)

lemma body_invalid:
  "\<not> List.member redirect_files filename \<Longrightarrow> \<not> validate_filename filename \<Longrightarrow>
   body (filename, False) s =
     s\<lparr>total_files := total_files s + 1, invalid_files := invalid_files s @ [filename],
       out := out s @ [InvalidLine filename]\<rparr>"
  by (simp add: body_def Let_def)

lemma body_cases:
  obtains (dir) filename where "e = (filename, True)"
  | (exempt) filename where "e = (filename, False)" "List.member redirect_files filename"
  | (valid) filename where "e = (filename, False)" "\<not> List.member redirect_files filename"
      "validate_filename filename"
  | (invalid) filename where "e = (filename, False)" "\<not> List.member redirect_files filename"
      "\<not> validate_filename filename"
  by (cases e) (metis (full_types))

lemma total_files_for_loop:
  "total_files (for_loop es s) = total_files s + length (filter (\<lambda>(filename, isdir). \<not> isdir) es)"
proof (induction es arbitrary: s)
  case Nil
  show ?case by simp
next
  case (Cons e es)
  show ?case
    by (cases e rule: body_cases)
      (simp_all add: Cons.IH body_dir body_exempt body_valid body_invalid)
qed

lemma valid_files_for_loop:
  "valid_files (for_loop es s) = valid_files s +
     length (filter (\<lambda>(filename, isdir).
       \<not> isdir \<and> \<not> List.member redirect_files filename \<and> validate_filename filename) es)"
proof (induction es arbitrary: s)
  case Nil
  show ?case by simp
next
  case (Cons e es)
  show ?case
    by (cases e rule: body_cases)
      (simp_all add: Cons.IH body_dir body_exempt body_valid body_invalid)
qed

lemma failures_Nil: "failures [] = []"
  by (simp add: failures_def)

lemma failures_Cons:
  "failures ((filename, isdir) # es) =
     (if \<not> isdir \<and> \<not> List.member redirect_files filename \<and> \<not> validate_filename filename
      then filename # failures es else failures es)"
  by (simp add: failures_def)

lemma invalid_files_for_loop:
  "invalid_files (for_loop es s) = invalid_files s @ failures es"
proof (induction es arbitrary: s)
  case Nil
  show ?case by (simp add: failures_Nil)
next
  case (Cons e es)
  show ?case
    by (cases e rule: body_cases)
      (simp_all add: Cons.IH failures_Cons body_dir body_exempt body_valid body_invalid)
qed

lemma fst_report:
  "total_files (fst (report s)) = total_files s"
  "valid_files (fst (report s)) = valid_files s"
  "invalid_files (fst (report s)) = invalid_files s"
  by (simp_all add: report_def Let_def)


lemma main_Directory:
  "main docs_dir (Directory es) =
     report (for_loop es \<lparr>total_files = 0, valid_files = 0, invalid_files = [],
               out = [Start, DocsDirLine docs_dir, PatternLine]\<rparr>)"
  by (simp add: main_def)

lemma partition3:
  "length (filter (\<lambda>(filename, isdir). \<not> isdir) es) =
     length (filter (\<lambda>(filename, isdir).
       \<not> isdir \<and> \<not> List.member redirect_files filename \<and> validate_filename filename) es) +
     length (failures es) + exempt_count es"
  by (induction es) (auto simp: failures_def exempt_count_def)

text \<open>
  C3: after a scan of any listing, the total is the sum of the valid count, the length
  of the list of invalid names and the number of exempt files; the total counts the
  entries that are not directories, the valid count the non-exempt names among them
  that pass the pattern, and the invalid list holds the non-exempt names that fail it.
\<close>

theorem counters_add_up:
  "total_files (fst (main docs_dir (Directory es))) =
     valid_files (fst (main docs_dir (Directory es))) +
     length (invalid_files (fst (main docs_dir (Directory es)))) + exempt_count es
   \<and> total_files (fst (main docs_dir (Directory es))) =
       length (filter (\<lambda>(filename, isdir). \<not> isdir) es)
   \<and> valid_files (fst (main docs_dir (Directory es))) =
       length (filter (\<lambda>(filename, isdir).
         \<not> isdir \<and> \<not> List.member redirect_files filename \<and> validate_filename filename) es)
   \<and> length (invalid_files (fst (main docs_dir (Directory es)))) = length (failures es)"
  by (simp add: main_Directory fst_report total_files_for_loop valid_files_for_loop
      invalid_files_for_loop partition3)

text \<open>
  C7: the list of invalid names at the end of a run is the listing, in its own order,
  restricted to the entries that are not directories, are not exempt and fail the
  pattern; nothing is sorted or moved.
\<close>

theorem invalid_list_in_listing_order:
  "invalid_files (fst (main docs_dir (Directory es))) =
     map fst (filter (\<lambda>(filename, isdir).
       \<not> isdir \<and> \<not> List.member redirect_files filename \<and> \<not> validate_filename filename) es)"
  by (simp add: main_Directory fst_report invalid_files_for_loop failures_def)

section \<open>Exempt files\<close>

lemma out_for_loop:
  "Skipped n \<in> set (out (for_loop es s)) \<longleftrightarrow>
     Skipped n \<in> set (out s) \<or> ((n, False) \<in> set es \<and> List.member redirect_files n)"
  "ValidLine n \<in> set (out (for_loop es s)) \<longleftrightarrow>
     ValidLine n \<in> set (out s) \<or>
     ((n, False) \<in> set es \<and> \<not> List.member redirect_files n \<and> validate_filename n)"
  "InvalidLine n \<in> set (out (for_loop es s)) \<longleftrightarrow>
     InvalidLine n \<in> set (out s) \<or>
     ((n, False) \<in> set es \<and> \<not> List.member redirect_files n \<and> \<not> validate_filename n)"
  "Item n \<in> set (out (for_loop es s)) \<longleftrightarrow> Item n \<in> set (out s)"
proof (induction es arbitrary: s)
  case Nil
  { case 1 show ?case by simp }
  { case 2 show ?case by simp }
  { case 3 show ?case by simp }
  { case 4 show ?case by simp }
next
  case (Cons e es)
  { case 1 show ?case
      by (cases e rule: body_cases)
        (auto simp add: Cons.IH body_dir body_exempt body_valid body_invalid) }
  { case 2 show ?case
      by (cases e rule: body_cases)
        (auto simp add: Cons.IH body_dir body_exempt body_valid body_invalid) }
  { case 3 show ?case
      by (cases e rule: body_cases)
        (auto simp add: Cons.IH body_dir body_exempt body_valid body_invalid) }
  { case 4 show ?case
      by (cases e rule: body_cases)
        (auto simp add: Cons.IH body_dir body_exempt body_valid body_invalid) }
qed

lemma out_report:
  "Skipped n \<in> set (out (fst (report s))) \<longleftrightarrow> Skipped n \<in> set (out s)"
  "ValidLine n \<in> set (out (fst (report s))) \<longleftrightarrow> ValidLine n \<in> set (out s)"
  "InvalidLine n \<in> set (out (fst (report s))) \<longleftrightarrow> InvalidLine n \<in> set (out s)"
  "Item n \<in> set (out (fst (report s))) \<longleftrightarrow> Item n \<in> set (out s) \<or> n \<in> set (invalid_files s)"
  by (auto simp add: report_def Let_def)

lemma exempt_not_in_failures: "List.member redirect_files n \<Longrightarrow> n \<notin> set (failures es)"
  by (auto simp add: failures_def)

text \<open>
  C4: for a file of the listing whose name is an entry of the exemption list, the
  pattern is not consulted, whatever the shape of the name: the step of the loop only
  adds one to the total and prints the notice that the file is skipped, and in the run
  the name is never put in the list of invalid names nor reported as valid or invalid.
\<close>

theorem exempt_file_is_skipped:
  assumes "List.member redirect_files filename" and "(filename, False) \<in> set es"
  shows "body (filename, False) s =
           s\<lparr>total_files := total_files s + 1, out := out s @ [Skipped filename]\<rparr>
     \<and> Skipped filename \<in> set (out (fst (main docs_dir (Directory es))))
     \<and> filename \<notin> set (invalid_files (fst (main docs_dir (Directory es))))
     \<and> InvalidLine filename \<notin> set (out (fst (main docs_dir (Directory es))))
     \<and> Item filename \<notin> set (out (fst (main docs_dir (Directory es))))
     \<and> ValidLine filename \<notin> set (out (fst (main docs_dir (Directory es))))"
proof -
  have "filename \<notin> set (failures es)"
    using assms(1) by (rule exempt_not_in_failures)
  then show ?thesis
    using assms
    by (simp add: body_exempt main_Directory out_report out_for_loop fst_report
        invalid_files_for_loop)
qed

theorem exempt_file_is_skipped_witness:
  "List.member redirect_files (str ''00-document-meta.md'')
   \<and> (str ''00-document-meta.md'', False) \<in> set [(str ''00-document-meta.md'', False)]
   \<and> total_files (body (str ''00-document-meta.md'', False)
        \<lparr>total_files = 0, valid_files = 0, invalid_files = [], out = []\<rparr>) = 1
   \<and> Skipped (str ''00-document-meta.md'') \<in>
        set (out (fst (main [] (Directory [(str ''00-document-meta.md'', False)]))))
   \<and> str ''00-document-meta.md'' \<notin>
        set (invalid_files (fst (main [] (Directory [(str ''00-document-meta.md'', False)]))))"
proof -
  have m: "List.member redirect_files (str ''00-document-meta.md'')"
    by (simp add: redirect_files_def)
  have e: "(str ''00-document-meta.md'', False) \<in> set [(str ''00-document-meta.md'', False)]"
    by simp
  show ?thesis
    using m e exempt_file_is_skipped [OF m e,
        of "\<lparr>total_files = 0, valid_files = 0, invalid_files = [], out = []\<rparr>" "[]"]
    by simp
qed

section \<open>Exit codes\<close>



section \<open>The missing directory\<close>

text \<open>
  C6: when nothing exists at the docs path, the run prints the error line that names the
  path and exits with code 1 at once: nothing is classified, no notice for any file is
  printed, and the three counters are still zero.
\<close>

theorem missing_directory_exits_at_once:
  "main docs_dir Absent =
     (\<lparr>total_files = 0, valid_files = 0, invalid_files = [],
       out = [Start, DocsDirLine docs_dir, PatternLine, MissingDir docs_dir]\<rparr>, Exit 1)"
  by (simp add: main_def)

text \<open>
  C10: when something that is not a directory sits at the docs path, the existence
  check passes: the error line for a missing directory is not printed, no exit code 1
  comes from that branch, and the run goes on to the listing, which raises an exception
  that nothing catches.
\<close>

theorem not_a_directory_is_an_uncaught_fault:
  "snd (main docs_dir Regular) = Uncaught NotADirectoryError \<and>
   MissingDir docs_dir \<notin> set (out (fst (main docs_dir Regular))) \<and>
   main docs_dir Regular \<noteq> main docs_dir Absent"
  by (simp add: main_def)

end
